theory Spec2Isabelle
  imports Main "HOL-Library.Word"
begin

section \<open>The copy-generation fallback orchestrator of \<^verbatim>\<open>src/lib/bedrock.ts\<close>\<close>

text \<open>
  The module calls a primary text provider (\<^verbatim>\<open>callGeminiDirect\<close>), falls back to a
  secondary one (\<^verbatim>\<open>callPollinationsText\<close>), parses the raw answer
  (\<^verbatim>\<open>parseResponse\<close>) and degrades to a literal object when both providers fail
  (\<^verbatim>\<open>generateMarketingCopy\<close>). The embedding keeps that structure: strings are
  sequences of UTF-16 code units, JavaScript values are a datatype, an exception is the
  left summand of a sum, and the outbound requests are recorded in a trace that is passed
  through every call.
\<close>

subsection \<open>Strings\<close>

text \<open>
  A JavaScript string is a sequence of 16-bit code units; \<open>utf16\<close> embeds a literal of
  the source (all of them are ASCII).
\<close>

type_synonym jstring = "16 word list"

definition utf16 :: "string \<Rightarrow> jstring" where
  "utf16 s = map of_char s"

text \<open>
  \<^verbatim>\<open>text.replace(/p/g, '')\<close> for a pattern \<open>p\<close> without metacharacters: every
  occurrence of \<open>p\<close>, found from left to right and without overlap, is deleted. The
  scan resumes behind the occurrence, that is \<open>length p - 1\<close> code units behind the
  first one for a pattern that is not empty.
\<close>

fun remove_all :: "jstring \<Rightarrow> jstring \<Rightarrow> jstring" where
  "remove_all p [] = []"
| "remove_all p (c # cs) =
     (if p \<noteq> [] \<and> take (length p) (c # cs) = p
      then remove_all p (drop (length p - 1) cs)
      else c # remove_all p cs)"

text \<open>
  \<^verbatim>\<open>String.prototype.trim\<close> removes the code units of WhiteSpace and LineTerminator
  from both ends: TAB, LF, VT, FF, CR, SP, NBSP, the Unicode space separators, LS, PS
  and ZWNBSP.
\<close>

definition is_trim_space :: "16 word \<Rightarrow> bool" where
  "is_trim_space c =
     (if 0x09 \<le> c \<and> c \<le> 0x0D then True
      else if 0x2000 \<le> c \<and> c \<le> 0x200A then True
      else c \<in> set [0x20, 0xA0, 0x1680, 0x2028, 0x2029, 0x202F, 0x205F, 0x3000, 0xFEFF])"

definition trim :: "jstring \<Rightarrow> jstring" where
  "trim s = rev (dropWhile is_trim_space (rev (dropWhile is_trim_space s)))"

subsection \<open>Values and exceptions\<close>

text \<open>
  The values the module handles are \<^verbatim>\<open>undefined\<close> and what \<^verbatim>\<open>JSON.parse\<close> builds.
  A number keeps the text of its literal where JavaScript holds a double, and an object is
  the list of its own properties in the order of the text where JavaScript lists the
  integer-like keys first. No statement below reads the value of a number or the order of
  the keys: properties are looked up by name.
\<close>

datatype val =
    VUndefined
  | VNull
  | VBool bool
  | VNumber jstring
  | VString jstring
  | VArray "val list"
  | VObject "(jstring \<times> val) list"

datatype js_error =
    Error string
  | TypeError
  | SyntaxError
  | URIError
  | AbortError

text \<open>Storing a property: a key that exists keeps its place and takes the new value.\<close>

fun put :: "jstring \<Rightarrow> val \<Rightarrow> (jstring \<times> val) list \<Rightarrow> (jstring \<times> val) list" where
  "put k v [] = [(k, v)]"
| "put k v ((k', v') # m) = (if k' = k then (k, v) # m else (k', v') # put k v m)"

subsection \<open>\<^verbatim>\<open>JSON.parse\<close>\<close>

text \<open>
  The built-in is modelled by a scanner for the tokens of the JSON grammar and a
  pushdown automaton over the tokens. Every rejection is a \<^verbatim>\<open>SyntaxError\<close>.
\<close>

datatype token =
    LBrace | RBrace | LBracket | RBracket | Colon | Comma
  | TString jstring | TNumber jstring | TTrue | TFalse | TNull

definition is_json_space :: "16 word \<Rightarrow> bool" where
  "is_json_space c = (c \<in> set [0x20, 0x09, 0x0A, 0x0D])"

definition is_digit :: "16 word \<Rightarrow> bool" where
  "is_digit c = (0x30 \<le> c \<and> c \<le> 0x39)"

definition hex_digit :: "16 word \<Rightarrow> 16 word option" where
  "hex_digit c =
     (if 0x30 \<le> c \<and> c \<le> 0x39 then Some (c - 0x30)
      else if 0x41 \<le> c \<and> c \<le> 0x46 then Some (c - 0x37)
      else if 0x61 \<le> c \<and> c \<le> 0x66 then Some (c - 0x57)
      else None)"

text \<open>The single-character escapes: quote, backslash, slash, b, f, n, r, t.\<close>

definition unescape :: "16 word \<Rightarrow> 16 word option" where
  "unescape c =
     (if c = 0x22 then Some 0x22
      else if c = 0x5C then Some 0x5C
      else if c = 0x2F then Some 0x2F
      else if c = 0x62 then Some 0x08
      else if c = 0x66 then Some 0x0C
      else if c = 0x6E then Some 0x0A
      else if c = 0x72 then Some 0x0D
      else if c = 0x74 then Some 0x09
      else None)"

definition hex4 :: "16 word \<Rightarrow> 16 word \<Rightarrow> 16 word \<Rightarrow> 16 word \<Rightarrow> 16 word option" where
  "hex4 a b c d =
     (case (hex_digit a, hex_digit b, hex_digit c, hex_digit d) of
        (Some h3, Some h2, Some h1, Some h0) \<Rightarrow> Some (h3 * 0x1000 + h2 * 0x100 + h1 * 0x10 + h0)
      | _ \<Rightarrow> None)"

definition consumed :: "16 word \<Rightarrow> nat \<Rightarrow> (jstring \<times> nat) option \<Rightarrow> (jstring \<times> nat) option" where
  "consumed u k r = (case r of None \<Rightarrow> None | Some (s, n) \<Rightarrow> Some (u # s, n + k))"

text \<open>
  \<open>scan_string\<close> reads a string behind its opening quote: the decoded characters and
  the number of code units read, the closing quote included. Code units below U+0020
  must be escaped.
\<close>

fun scan_string :: "jstring \<Rightarrow> (jstring \<times> nat) option" where
  "scan_string [] = None"
| "scan_string (c # cs) =
     (if c = 0x22 then Some ([], 1)
      else if c = 0x5C then
        (case cs of
           [] \<Rightarrow> None
         | e # r \<Rightarrow>
             if e = 0x75 then
               (case r of
                  a # b # c' # d # r' \<Rightarrow>
                    (case hex4 a b c' d of
                       None \<Rightarrow> None
                     | Some u \<Rightarrow> consumed u 6 (scan_string r'))
                | _ \<Rightarrow> None)
             else
               (case unescape e of
                  None \<Rightarrow> None
                | Some u \<Rightarrow> consumed u 2 (scan_string r)))
      else if c < 0x20 then None
      else consumed c 1 (scan_string cs))"

definition digits :: "jstring \<Rightarrow> nat" where
  "digits cs = length (takeWhile is_digit cs)"

text \<open>
  \<open>scan_number\<close> gives the length of the number at the head of the text:
  an optional minus, \<open>0\<close> or a digit sequence without leading zero, an optional
  fraction, an optional exponent.
\<close>

definition scan_exponent :: "nat \<Rightarrow> jstring \<Rightarrow> nat option" where
  "scan_exponent n r =
     (case r of
        [] \<Rightarrow> Some n
      | e # r' \<Rightarrow>
          if e = 0x65 \<or> e = 0x45 then
            (let s = (case r' of [] \<Rightarrow> 0 | c # _ \<Rightarrow> if c = 0x2B \<or> c = 0x2D then 1 else 0);
                 k = digits (drop s r')
             in if k = 0 then None else Some (n + 1 + s + k))
          else Some n)"

definition scan_fraction :: "nat \<Rightarrow> jstring \<Rightarrow> nat option" where
  "scan_fraction n r =
     (case r of
        [] \<Rightarrow> Some n
      | d # r' \<Rightarrow>
          if d = 0x2E then
            (let k = digits r'
             in if k = 0 then None else scan_exponent (n + 1 + k) (drop k r'))
          else scan_exponent n r)"

definition scan_number :: "jstring \<Rightarrow> nat option" where
  "scan_number cs =
     (let m = (case cs of [] \<Rightarrow> 0 | c # _ \<Rightarrow> if c = 0x2D then 1 else 0)
      in case drop m cs of
           [] \<Rightarrow> None
         | d # r \<Rightarrow>
             if d = 0x30 then scan_fraction (m + 1) r
             else if is_digit d then (let k = digits r in scan_fraction (m + 1 + k) (drop k r))
             else None)"

definition emit :: "token \<Rightarrow> token list option \<Rightarrow> token list option" where
  "emit t r = (case r of None \<Rightarrow> None | Some ts \<Rightarrow> Some (t # ts))"

fun tokens :: "jstring \<Rightarrow> token list option" where
  "tokens [] = Some []"
| "tokens (c # cs) =
     (if is_json_space c then tokens cs
      else if c = 0x7B then emit LBrace (tokens cs)
      else if c = 0x7D then emit RBrace (tokens cs)
      else if c = 0x5B then emit LBracket (tokens cs)
      else if c = 0x5D then emit RBracket (tokens cs)
      else if c = 0x3A then emit Colon (tokens cs)
      else if c = 0x2C then emit Comma (tokens cs)
      else if c = 0x22 then
        (case scan_string cs of
           None \<Rightarrow> None
         | Some (s, n) \<Rightarrow> emit (TString s) (tokens (drop n cs)))
      else if c = 0x2D \<or> is_digit c then
        (case scan_number (c # cs) of
           None \<Rightarrow> None
         | Some n \<Rightarrow> emit (TNumber (take n (c # cs))) (tokens (drop (n - 1) cs)))
      else if take 4 (c # cs) = utf16 ''true'' then emit TTrue (tokens (drop 3 cs))
      else if take 5 (c # cs) = utf16 ''false'' then emit TFalse (tokens (drop 4 cs))
      else if take 4 (c # cs) = utf16 ''null'' then emit TNull (tokens (drop 3 cs))
      else None)"

text \<open>
  The automaton. A frame is an array or an object under construction: the elements read
  so far (latest first), or the properties stored so far and the key whose value is
  being read.
\<close>

datatype frame =
    FArray "val list"
  | FObject "(jstring \<times> val) list" jstring

datatype pstate =
    S_Value "frame list"
  | S_ArrayStart "frame list"
  | S_ObjectStart "frame list"
  | S_Key "(jstring \<times> val) list" "frame list"
  | S_Colon "(jstring \<times> val) list" jstring "frame list"
  | S_After val "frame list"

fun begin_value :: "frame list \<Rightarrow> token \<Rightarrow> pstate option" where
  "begin_value stk LBrace = Some (S_ObjectStart stk)"
| "begin_value stk LBracket = Some (S_ArrayStart stk)"
| "begin_value stk (TString s) = Some (S_After (VString s) stk)"
| "begin_value stk (TNumber n) = Some (S_After (VNumber n) stk)"
| "begin_value stk TTrue = Some (S_After (VBool True) stk)"
| "begin_value stk TFalse = Some (S_After (VBool False) stk)"
| "begin_value stk TNull = Some (S_After VNull stk)"
| "begin_value stk _ = None"

fun step :: "pstate \<Rightarrow> token \<Rightarrow> pstate option" where
  "step (S_Value stk) t = begin_value stk t"
| "step (S_ArrayStart stk) t =
     (if t = RBracket then Some (S_After (VArray []) stk)
      else begin_value (FArray [] # stk) t)"
| "step (S_ObjectStart stk) t =
     (case t of
        RBrace \<Rightarrow> Some (S_After (VObject []) stk)
      | TString k \<Rightarrow> Some (S_Colon [] k stk)
      | _ \<Rightarrow> None)"
| "step (S_Key m stk) t =
     (case t of TString k \<Rightarrow> Some (S_Colon m k stk) | _ \<Rightarrow> None)"
| "step (S_Colon m k stk) t =
     (case t of Colon \<Rightarrow> Some (S_Value (FObject m k # stk)) | _ \<Rightarrow> None)"
| "step (S_After v []) t = None"
| "step (S_After v (FArray acc # stk)) t =
     (case t of
        Comma \<Rightarrow> Some (S_Value (FArray (v # acc) # stk))
      | RBracket \<Rightarrow> Some (S_After (VArray (rev (v # acc))) stk)
      | _ \<Rightarrow> None)"
| "step (S_After v (FObject m k # stk)) t =
     (case t of
        Comma \<Rightarrow> Some (S_Key (put k v m) stk)
      | RBrace \<Rightarrow> Some (S_After (VObject (put k v m)) stk)
      | _ \<Rightarrow> None)"

fun run :: "pstate \<Rightarrow> token list \<Rightarrow> val option" where
  "run st [] = (case st of S_After v [] \<Rightarrow> Some v | _ \<Rightarrow> None)"
| "run st (t # ts) = (case step st t of None \<Rightarrow> None | Some st' \<Rightarrow> run st' ts)"

definition JSON_parse :: "jstring \<Rightarrow> js_error + val" where
  "JSON_parse s =
     (case tokens s of
        None \<Rightarrow> Inl SyntaxError
      | Some ts \<Rightarrow>
          (case run (S_Value []) ts of
             None \<Rightarrow> Inl SyntaxError
           | Some v \<Rightarrow> Inr v))"

subsection \<open>Property access\<close>

text \<open>
  Reading a property of \<^verbatim>\<open>undefined\<close> or \<^verbatim>\<open>null\<close> throws a \<^verbatim>\<open>TypeError\<close>; on every
  other value a property that does not exist reads as \<^verbatim>\<open>undefined\<close>. Only own
  properties are modelled: the names this module reads (\<^verbatim>\<open>candidates\<close>, \<^verbatim>\<open>content\<close>,
  \<^verbatim>\<open>parts\<close>, \<^verbatim>\<open>text\<close>) are defined on no built-in prototype.
\<close>

definition own_property :: "(jstring \<times> val) list \<Rightarrow> jstring \<Rightarrow> val" where
  "own_property m k = (case map_of m k of None \<Rightarrow> VUndefined | Some v \<Rightarrow> v)"

text \<open>\<^verbatim>\<open>v.name\<close>\<close>

fun get_named :: "jstring \<Rightarrow> val \<Rightarrow> js_error + val" where
  "get_named name VUndefined = Inl TypeError"
| "get_named name VNull = Inl TypeError"
| "get_named name (VObject m) = Inr (own_property m name)"
| "get_named name _ = Inr VUndefined"

text \<open>\<^verbatim>\<open>v[0]\<close>\<close>

fun get_first :: "val \<Rightarrow> js_error + val" where
  "get_first VUndefined = Inl TypeError"
| "get_first VNull = Inl TypeError"
| "get_first (VObject m) = Inr (own_property m (utf16 ''0''))"
| "get_first (VArray xs) = Inr (case xs of [] \<Rightarrow> VUndefined | x # _ \<Rightarrow> x)"
| "get_first (VString s) = Inr (case s of [] \<Rightarrow> VUndefined | c # _ \<Rightarrow> VString [c])"
| "get_first _ = Inr VUndefined"

definition and_then :: "js_error + 'a \<Rightarrow> ('a \<Rightarrow> js_error + 'b) \<Rightarrow> js_error + 'b" where
  "and_then r f = (case r of Inl e \<Rightarrow> Inl e | Inr v \<Rightarrow> f v)"

subsection \<open>The network and the trace\<close>

text \<open>
  A request names the endpoint and carries what the module puts into it:
  \<open>GeminiPost key text\<close> is the POST to the \<^verbatim>\<open>gemini-pro:generateContent\<close> URL with
  the API key, whose JSON body has \<open>text\<close> as its only part; \<open>PollinationsGet prompt\<close>
  is the GET of \<^verbatim>\<open>text.pollinations.ai\<close> with the percent-encoded \<open>prompt\<close> and
  \<^verbatim>\<open>model=openai&json=true\<close>.

  A response has its \<^verbatim>\<open>ok\<close> flag and the outcome of reading its body. The network
  answers a request with a response or rejects it: with \<open>AbortError\<close> when the abort
  signal of the request fired (the primary tier arms it with a timer of 1500 ms; the
  timer itself is not part of the embedding), with \<open>TypeError\<close> on a connection error.
\<close>

datatype request =
    GeminiPost jstring jstring
  | PollinationsGet jstring

record response =
  ok :: bool
  body :: "js_error + jstring"

type_synonym network = "request \<Rightarrow> js_error + response"

datatype tier = Primary | Secondary

datatype event = Invoked tier | Fetched request

type_synonym trace = "event list"

text \<open>
  A computation takes the trace and returns its result, a value or the exception thrown,
  with the extended trace. Awaiting a promise is sequencing.
\<close>

type_synonym 'a io = "trace \<Rightarrow> (js_error + 'a) \<times> trace"

definition return_io :: "'a \<Rightarrow> 'a io" where
  "return_io v tr = (Inr v, tr)"

definition throw :: "js_error \<Rightarrow> 'a io" where
  "throw e tr = (Inl e, tr)"

definition lift :: "js_error + 'a \<Rightarrow> 'a io" where
  "lift r tr = (r, tr)"

definition bind_io :: "'a io \<Rightarrow> ('a \<Rightarrow> 'b io) \<Rightarrow> 'b io" where
  "bind_io m f tr = (case m tr of (Inl e, tr') \<Rightarrow> (Inl e, tr') | (Inr v, tr') \<Rightarrow> f v tr')"

definition try_catch :: "'a io \<Rightarrow> (js_error \<Rightarrow> 'a io) \<Rightarrow> 'a io" where
  "try_catch m h tr = (case m tr of (Inl e, tr') \<Rightarrow> h e tr' | (Inr v, tr') \<Rightarrow> (Inr v, tr'))"

definition log_event :: "event \<Rightarrow> unit io" where
  "log_event e tr = (Inr (), tr @ [e])"

definition fetch :: "network \<Rightarrow> request \<Rightarrow> response io" where
  "fetch net req tr = (net req, tr @ [Fetched req])"

text \<open>\<^verbatim>\<open>response.json()\<close> and \<^verbatim>\<open>response.text()\<close>\<close>

definition response_json :: "response \<Rightarrow> js_error + val" where
  "response_json r = and_then (body r) JSON_parse"

definition response_text :: "response \<Rightarrow> js_error + jstring" where
  "response_text r = body r"

text \<open>
  \<^verbatim>\<open>encodeURIComponent\<close> throws a \<^verbatim>\<open>URIError\<close> on a surrogate that is not part of a
  pair. Only this is modelled: the request keeps the prompt, not its encoding.
\<close>

fun well_formed :: "jstring \<Rightarrow> bool" where
  "well_formed [] = True"
| "well_formed [c] = (\<not> (0xD800 \<le> c \<and> c \<le> 0xDFFF))"
| "well_formed (c # d # cs) =
     (if 0xD800 \<le> c \<and> c \<le> 0xDBFF then 0xDC00 \<le> d \<and> d \<le> 0xDFFF \<and> well_formed cs
      else if 0xDC00 \<le> c \<and> c \<le> 0xDFFF then False
      else well_formed (d # cs))"

definition encodeURIComponent :: "jstring \<Rightarrow> js_error + jstring" where
  "encodeURIComponent s = (if well_formed s then Inr s else Inl URIError)"

subsection \<open>The prompt\<close>

definition ELITE_SYSTEM_PROMPT :: jstring where
  \<open>ELITE_SYSTEM_PROMPT = concat (map (\<lambda>l. utf16 l @ [0x0A])
     ['''',
      ''You are a World-Class Copywriter for a luxury brand (think Apple, Nike, Cred).'',
      ''Your goal is to write a high-status, emotionally resonant campaign for an Indian audience.'',
      '''',
      ''Tone: Sophisticated, Witty, and Premium.'',
      ''Language: "Urban Hinglish" (mostly English, with 1-2 powerful Hindi words for impact).'',
      '''',
      ''Instructions:'',
      ''1. "hook": Write a magnetic headline. It should promise a transformation, not just a product.'',
      ''   - Cheap: "Buy domains fast."'',
      ''   - Premium: "Your digital legacy begins here. Naam banao, pehchaan banao."'',
      ''   '',
      ''2. "offer": A value-driven proposition, not just a discount.'',
      ''   - Cheap: "30% off."'',
      ''   - Premium: "Exclusive Early Access: 30% Advantage for the visionaries."'',
      '''',
      ''3. "cta": A confident, low-pressure command.'',
      ''   - Cheap: "Click here now."'',
      ''   - Premium: "Claim Your Space" or "Begin the Journey."'',
      '''',
      ''Output JSON Structure:'',
      ''{'',
      ''  "hook": "...",'',
      ''  "offer": "...",'',
      ''  "cta": "..."'',
      ''}''])\<close>

text \<open>\<^verbatim>\<open>`${ELITE_SYSTEM_PROMPT}\n\nBrand Focus: ${prompt}`\<close>\<close>

definition brand_focus :: "jstring \<Rightarrow> jstring" where
  "brand_focus prompt = ELITE_SYSTEM_PROMPT @ [0x0A, 0x0A] @ utf16 ''Brand Focus: '' @ prompt"

subsection \<open>Engine A: \<^verbatim>\<open>callGeminiDirect\<close>\<close>

text \<open>
  The environment holds \<^verbatim>\<open>process.env.NEXT_PUBLIC_GEMINI_API_KEY\<close>; a key that is
  not set or is empty is falsy. The handler of the function rethrows what it caught.
\<close>

record env =
  NEXT_PUBLIC_GEMINI_API_KEY :: "jstring option"

definition candidate_text :: "val \<Rightarrow> js_error + val" where
  "candidate_text data =
     and_then (get_named (utf16 ''candidates'') data) (\<lambda>candidates.
     and_then (get_first candidates) (\<lambda>candidate.
     and_then (get_named (utf16 ''content'') candidate) (\<lambda>content.
     and_then (get_named (utf16 ''parts'') content) (\<lambda>parts.
     and_then (get_first parts) (\<lambda>part.
     get_named (utf16 ''text'') part)))))"

definition callGeminiDirect :: "env \<Rightarrow> network \<Rightarrow> jstring \<Rightarrow> val io" where
  "callGeminiDirect e net prompt =
     bind_io (log_event (Invoked Primary)) (\<lambda>_.
       case NEXT_PUBLIC_GEMINI_API_KEY e of
         None \<Rightarrow> throw (Error ''No Gemini Key'')
       | Some apiKey \<Rightarrow>
           if apiKey = [] then throw (Error ''No Gemini Key'')
           else
             try_catch
               (bind_io (fetch net (GeminiPost apiKey (brand_focus prompt))) (\<lambda>response.
                  if \<not> ok response then throw (Error ''Google Blocked'')
                  else bind_io (lift (response_json response)) (\<lambda>data.
                    lift (candidate_text data))))
               (\<lambda>error. throw error))"

subsection \<open>Engine B: \<^verbatim>\<open>callPollinationsText\<close>\<close>

definition callPollinationsText :: "network \<Rightarrow> jstring \<Rightarrow> jstring io" where
  "callPollinationsText net prompt =
     bind_io (log_event (Invoked Secondary)) (\<lambda>_.
       let fullPrompt = brand_focus prompt in
       bind_io (lift (encodeURIComponent fullPrompt)) (\<lambda>encoded.
       bind_io (fetch net (PollinationsGet encoded)) (\<lambda>response.
         if \<not> ok response then throw (Error ''Backup Failed'')
         else lift (response_text response))))"

subsection \<open>\<^verbatim>\<open>parseResponse\<close>\<close>

definition parse_fallback :: val where
  "parse_fallback = VObject
     [(utf16 ''hook'', VString (utf16 ''Innovation meets Tradition. Perfect choice.'')),
      (utf16 ''offer'', VString (utf16 ''Exclusive Member Pricing Applied'')),
      (utf16 ''cta'', VString (utf16 ''Explore Collection''))]"

text \<open>
  \<^verbatim>\<open>text.replace(/```json/g, '').replace(/```/g, '').trim()\<close>. The argument is typed
  \<^verbatim>\<open>string\<close> but is whatever the caller passes: on a value that is not a string the
  call of \<^verbatim>\<open>replace\<close> throws a \<^verbatim>\<open>TypeError\<close>.
\<close>

definition cleanText :: "jstring \<Rightarrow> jstring" where
  "cleanText s = trim (remove_all (utf16 ''```'') (remove_all (utf16 ''```json'') s))"

definition parseResponse_try :: "val \<Rightarrow> js_error + val" where
  "parseResponse_try text =
     (case text of
        VString s \<Rightarrow> JSON_parse (cleanText s)
      | _ \<Rightarrow> Inl TypeError)"

definition parseResponse :: "val \<Rightarrow> js_error + val" where
  "parseResponse text =
     (case parseResponse_try text of
        Inr v \<Rightarrow> Inr v
      | Inl e \<Rightarrow> Inr parse_fallback)"

subsection \<open>The orchestrator: \<^verbatim>\<open>generateMarketingCopy\<close>\<close>

definition safe_mode :: val where
  "safe_mode = VObject
     [(utf16 ''hook'', VString (utf16 ''Redefine Excellence. Aaj hi shuru karein.'')),
      (utf16 ''offer'', VString (utf16 ''Premium Launch Privilege: 20% Advantage'')),
      (utf16 ''cta'', VString (utf16 ''Experience the Future''))]"

definition userRequest :: "jstring \<Rightarrow> jstring \<Rightarrow> jstring" where
  "userRequest topic businessType =
     utf16 ''Business Type: '' @ businessType @ utf16 '', Campaign Topic: '' @ topic"

definition generateMarketingCopy :: "env \<Rightarrow> network \<Rightarrow> jstring \<Rightarrow> jstring \<Rightarrow> val io" where
  "generateMarketingCopy e net topic businessType =
     try_catch
       (bind_io (callGeminiDirect e net (userRequest topic businessType)) (\<lambda>text.
          lift (parseResponse text)))
       (\<lambda>err1.
          try_catch
            (bind_io (callPollinationsText net (userRequest topic businessType)) (\<lambda>text.
               lift (parseResponse (VString text))))
            (\<lambda>err2. return_io safe_mode))"

subsection \<open>What the claims speak about\<close>

text \<open>The tiers invoked, in the order of the trace.\<close>

fun tiers_invoked :: "trace \<Rightarrow> tier list" where
  "tiers_invoked [] = []"
| "tiers_invoked (Invoked t # tr) = t # tiers_invoked tr"
| "tiers_invoked (Fetched r # tr) = tiers_invoked tr"

text \<open>A field that is present and a string that is not empty.\<close>

definition nonempty_field :: "val \<Rightarrow> jstring \<Rightarrow> bool" where
  "nonempty_field v k =
     (case v of
        VObject m \<Rightarrow> (case map_of m k of Some (VString s) \<Rightarrow> s \<noteq> [] | _ \<Rightarrow> False)
      | _ \<Rightarrow> False)"

definition complete_copy :: "jstring list \<Rightarrow> val \<Rightarrow> bool" where
  "complete_copy names v = list_all (nonempty_field v) names"

text \<open>A fetch that did not bring a response with a success status.\<close>

definition fetch_failed :: "js_error + response \<Rightarrow> bool" where
  "fetch_failed r = (case r of Inl e \<Rightarrow> True | Inr resp \<Rightarrow> \<not> ok resp)"

subsection \<open>Concrete environments and networks\<close>

text \<open>
  Inputs at which the theorems below are evaluated: an environment with and without the
  API key, the body of a primary response that carries a given text, and five networks.
\<close>

definition env_with_key :: env where
  "env_with_key = \<lparr>NEXT_PUBLIC_GEMINI_API_KEY = Some (utf16 ''key'')\<rparr>"

definition env_without_key :: env where
  "env_without_key = \<lparr>NEXT_PUBLIC_GEMINI_API_KEY = None\<rparr>"

definition gemini_body :: "jstring \<Rightarrow> jstring" where
  \<open>gemini_body t = utf16 ''{"candidates":[{"content":{"parts":[{"text":"'' @ t @ utf16 ''"}]}}]}''\<close>



fun empty_object_network :: network where
  "empty_object_network (GeminiPost k t) = Inr \<lparr>ok = True, body = Inr (gemini_body (utf16 ''{}''))\<rparr>"
| "empty_object_network (PollinationsGet p) = Inl TypeError"


fun network_down :: network where
  "network_down r = Inl TypeError"

fun network_refusing :: network where
  "network_refusing r = Inr \<lparr>ok = False, body = Inr []\<rparr>"

section \<open>Properties\<close>

subsection \<open>The parser and the two engines\<close>

text \<open>
  The parser always returns, so the handlers of the orchestrator are entered only by an
  exception of a tier; the value and the trace of each tier and of the orchestrator are
  given in closed form. The value never depends on the trace.
\<close>

lemma parseResponse_returns: "\<exists>v. parseResponse text = Inr v"
  by (simp add: parseResponse_def split: sum.split)


lemma generateMarketingCopy_cases:
  "generateMarketingCopy e net topic businessType tr =
     (case callGeminiDirect e net (userRequest topic businessType) tr of
        (Inr text, tr1) \<Rightarrow> (parseResponse text, tr1)
      | (Inl err1, tr1) \<Rightarrow>
          (case callPollinationsText net (userRequest topic businessType) tr1 of
             (Inr text, tr2) \<Rightarrow> (parseResponse (VString text), tr2)
           | (Inl err2, tr2) \<Rightarrow> (Inr safe_mode, tr2)))"
  unfolding generateMarketingCopy_def try_catch_def bind_io_def lift_def return_io_def
  using parseResponse_returns
  by (auto split: prod.splits sum.splits) (metis Inl_Inr_False)+

lemma callGeminiDirect_trace:
  "snd (callGeminiDirect e net p tr) =
     tr @ Invoked Primary #
       (case NEXT_PUBLIC_GEMINI_API_KEY e of
          None \<Rightarrow> []
        | Some k \<Rightarrow> if k = [] then [] else [Fetched (GeminiPost k (brand_focus p))])"
  by (simp add: callGeminiDirect_def bind_io_def log_event_def throw_def try_catch_def fetch_def lift_def
      split: option.splits sum.splits prod.splits)

lemma callGeminiDirect_result:
  "fst (callGeminiDirect e net p tr) =
     (case NEXT_PUBLIC_GEMINI_API_KEY e of
        None \<Rightarrow> Inl (Error ''No Gemini Key'')
      | Some k \<Rightarrow>
          if k = [] then Inl (Error ''No Gemini Key'')
          else (case net (GeminiPost k (brand_focus p)) of
                  Inl err \<Rightarrow> Inl err
                | Inr r \<Rightarrow>
                    if \<not> ok r then Inl (Error ''Google Blocked'')
                    else and_then (response_json r) candidate_text))"
  by (simp add: callGeminiDirect_def bind_io_def log_event_def throw_def try_catch_def fetch_def lift_def and_then_def
      split: option.splits sum.splits prod.splits)

lemma callPollinationsText_trace:
  "snd (callPollinationsText net p tr) =
     tr @ Invoked Secondary #
       (if well_formed (brand_focus p) then [Fetched (PollinationsGet (brand_focus p))] else [])"
  by (simp add: callPollinationsText_def bind_io_def log_event_def throw_def fetch_def lift_def
      encodeURIComponent_def Let_def split: sum.splits prod.splits)

lemma callPollinationsText_result:
  "fst (callPollinationsText net p tr) =
     (if \<not> well_formed (brand_focus p) then Inl URIError
      else (case net (PollinationsGet (brand_focus p)) of
              Inl err \<Rightarrow> Inl err
            | Inr r \<Rightarrow> if \<not> ok r then Inl (Error ''Backup Failed'') else response_text r))"
  by (simp add: callPollinationsText_def bind_io_def log_event_def throw_def fetch_def lift_def
      encodeURIComponent_def Let_def split: sum.splits prod.splits)

lemma tiers_invoked_append: "tiers_invoked (a @ b) = tiers_invoked a @ tiers_invoked b"
  by (induction a rule: tiers_invoked.induct) simp_all

lemma callGeminiDirect_extends:
  "snd (callGeminiDirect e net p tr) = tr @ snd (callGeminiDirect e net p [])"
  by (simp add: callGeminiDirect_trace)

lemma callGeminiDirect_history:
  "fst (callGeminiDirect e net p tr) = fst (callGeminiDirect e net p tr')"
  by (simp add: callGeminiDirect_result)

lemma callPollinationsText_extends:
  "snd (callPollinationsText net p tr) = tr @ snd (callPollinationsText net p [])"
  by (simp add: callPollinationsText_trace)

lemma callPollinationsText_history:
  "fst (callPollinationsText net p tr) = fst (callPollinationsText net p tr')"
  by (simp add: callPollinationsText_result)

lemma generateMarketingCopy_result:
  "fst (generateMarketingCopy e net topic businessType tr) =
     (case fst (callGeminiDirect e net (userRequest topic businessType) []) of
        Inr text \<Rightarrow> parseResponse text
      | Inl err1 \<Rightarrow>
          (case fst (callPollinationsText net (userRequest topic businessType) []) of
             Inr text \<Rightarrow> parseResponse (VString text)
           | Inl err2 \<Rightarrow> Inr safe_mode))"
proof -
  let ?u = "userRequest topic businessType"
  obtain r1 tr1 where g: "callGeminiDirect e net ?u tr = (r1, tr1)"
    by (cases "callGeminiDirect e net ?u tr")
  obtain r2 tr2 where p: "callPollinationsText net ?u tr1 = (r2, tr2)"
    by (cases "callPollinationsText net ?u tr1")
  have g0: "fst (callGeminiDirect e net ?u []) = r1"
    using g callGeminiDirect_history [of e net ?u "[]" tr] by simp
  have p0: "fst (callPollinationsText net ?u []) = r2"
    using p callPollinationsText_history [of net ?u "[]" tr1] by simp
  show ?thesis
    by (simp add: generateMarketingCopy_cases g p g0 p0 split: sum.splits)
qed

lemma generateMarketingCopy_trace:
  "snd (generateMarketingCopy e net topic businessType tr) =
     tr @ snd (callGeminiDirect e net (userRequest topic businessType) []) @
       (if isl (fst (callGeminiDirect e net (userRequest topic businessType) []))
        then snd (callPollinationsText net (userRequest topic businessType) [])
        else [])"
proof -
  let ?u = "userRequest topic businessType"
  obtain r1 tr1 where g: "callGeminiDirect e net ?u tr = (r1, tr1)"
    by (cases "callGeminiDirect e net ?u tr")
  obtain r2 tr2 where p: "callPollinationsText net ?u tr1 = (r2, tr2)"
    by (cases "callPollinationsText net ?u tr1")
  have g0: "fst (callGeminiDirect e net ?u []) = r1"
    using g callGeminiDirect_history [of e net ?u "[]" tr] by simp
  have t1: "tr1 = tr @ snd (callGeminiDirect e net ?u [])"
    using g callGeminiDirect_extends [of e net ?u tr] by simp
  have t2: "tr2 = tr1 @ snd (callPollinationsText net ?u [])"
    using p callPollinationsText_extends [of net ?u tr1] by simp
  show ?thesis
    by (simp add: generateMarketingCopy_cases g p g0 t1 [symmetric] t2 split: sum.splits)
qed

lemma safe_mode_complete:
  "complete_copy [utf16 ''hook'', utf16 ''offer'', utf16 ''cta''] safe_mode"
  by (simp add: complete_copy_def nonempty_field_def safe_mode_def utf16_def)

lemma parse_fallback_complete:
  "complete_copy [utf16 ''hook'', utf16 ''offer'', utf16 ''cta''] parse_fallback"
  by (simp add: complete_copy_def nonempty_field_def parse_fallback_def utf16_def)


subsection \<open>The prompt holds no surrogate\<close>

text \<open>
  The literals of the module are ASCII, so \<^verbatim>\<open>encodeURIComponent\<close> accepts the full
  prompt whenever topic and business type hold no surrogate.
\<close>

lemma of_char_low: "(of_char c :: 16 word) < 0xD800"
proof -
  have small: "(of_char c :: nat) < 256"
    by simp
  have "unat (of_char c :: 16 word) = unat (of_nat (of_char c :: nat) :: 16 word)"
    by (simp only: of_nat_of_char)
  also have "\<dots> = of_char c mod 65536"
    by (simp add: unat_of_nat)
  also have "\<dots> = of_char c"
    by (rule mod_less, rule less_trans [OF small]) simp
  finally have u: "unat (of_char c :: 16 word) = of_char c" .
  have "(of_char c :: nat) < 55296"
    by (rule less_trans [OF small]) simp
  with u show ?thesis
    by (simp add: word_less_nat_alt)
qed

lemma utf16_low: "list_all (\<lambda>c. c < 0xD800) (utf16 s)"
  by (simp add: utf16_def list_all_iff of_char_low)

lemma lines_low: "list_all (\<lambda>c. c < 0xD800) (concat (map (\<lambda>l. utf16 l @ [0x0A]) ls))"
  using utf16_low by (induction ls) simp_all

lemma prompt_low: "list_all (\<lambda>c. c < 0xD800) ELITE_SYSTEM_PROMPT"
  unfolding ELITE_SYSTEM_PROMPT_def by (rule lines_low)

lemma low_well_formed: "list_all (\<lambda>c. c < 0xD800) s \<Longrightarrow> well_formed s"
  by (induction s rule: well_formed.induct) (auto simp add: word_less_nat_alt word_le_nat_alt)

lemma brand_focus_well_formed:
  "list_all (\<lambda>c. c < 0xD800) topic \<Longrightarrow> list_all (\<lambda>c. c < 0xD800) businessType
     \<Longrightarrow> well_formed (brand_focus (userRequest topic businessType))"
  using utf16_low prompt_low
  by (intro low_well_formed) (simp add: brand_focus_def userRequest_def)

subsection \<open>Evaluations at the concrete inputs\<close>

lemma key_present: "utf16 ''key'' \<noteq> []"
  by (simp add: utf16_def)

lemma empty_object_answer:
  "and_then (response_json \<lparr>ok = True, body = Inr (gemini_body (utf16 ''{}''))\<rparr>) candidate_text
     = Inr (VString (utf16 ''{}''))"
  by code_simp

lemma empty_object_parsed: "parseResponse (VString (utf16 ''{}'')) = Inr (VObject [])"
  by code_simp





section \<open>The claims\<close>

text \<open>
  Claim C1: for every topic and business type and every behaviour of the providers, the
  object returned has its three fields present and not empty. The module aims at this:
  the prompt asks for \<^verbatim>\<open>hook\<close>, \<^verbatim>\<open>offer\<close> and \<^verbatim>\<open>cta\<close>, both literal objects hold
  the three, and the route handler spreads them into its answer. But \<^verbatim>\<open>parseResponse\<close>
  returns what \<^verbatim>\<open>JSON.parse\<close> yields without looking at it. With the key set, empty
  topic and business type, and a primary answer whose text is \<^verbatim>\<open>{}\<close>, the orchestrator
  returns the empty object: it has no \<^verbatim>\<open>hook\<close>, no \<^verbatim>\<open>offer\<close>, and neither \<^verbatim>\<open>cta\<close> nor
  the \<^verbatim>\<open>callToAction\<close> of the specification.
\<close>

theorem generateMarketingCopy_returns_empty_object:
  "fst (generateMarketingCopy env_with_key empty_object_network [] [] []) = Inr (VObject [])
   \<and> \<not> nonempty_field (VObject []) (utf16 ''hook'')
   \<and> \<not> nonempty_field (VObject []) (utf16 ''offer'')
   \<and> \<not> nonempty_field (VObject []) (utf16 ''cta'')
   \<and> \<not> nonempty_field (VObject []) (utf16 ''callToAction'')"
  using empty_object_answer empty_object_parsed key_present
  by (simp add: generateMarketingCopy_result callGeminiDirect_result env_with_key_def
      nonempty_field_def)




text \<open>
  Claim C3: \<^verbatim>\<open>generateMarketingCopy\<close> is infallible at its boundary. For every input,
  environment and network, whatever the outcome of each fetch (abort, rejection, a
  status that is not a success, any body), it returns a value and throws nothing.
\<close>

theorem generateMarketingCopy_infallible:
  "\<exists>v. fst (generateMarketingCopy e net topic businessType tr) = Inr v"
  using parseResponse_returns
  by (simp add: generateMarketingCopy_result split: sum.splits)




text \<open>
  Claim C5, as the specification states it: when both tiers fail the result is the fixed
  object, which has the fields \<^verbatim>\<open>hook\<close>, \<^verbatim>\<open>offer\<close> and \<^verbatim>\<open>callToAction\<close>, not empty.
  The fixed object is returned, but its third field is named \<^verbatim>\<open>cta\<close>: it has no
  \<^verbatim>\<open>callToAction\<close>.
\<close>

theorem static_default_counterexample:
  "fst (generateMarketingCopy env_without_key network_down [] [] []) = Inr safe_mode
   \<and> \<not> nonempty_field safe_mode (utf16 ''callToAction'')"
proof -
  have "\<not> nonempty_field safe_mode (utf16 ''callToAction'')"
    by code_simp
  then show ?thesis
    by (simp add: generateMarketingCopy_result callGeminiDirect_result
        callPollinationsText_result env_without_key_def)
qed

text \<open>
  Claim C5, amended: when the calls of both tiers fail, \<^verbatim>\<open>generateMarketingCopy\<close> returns
  exactly the fixed object written below, whose three fields \<^verbatim>\<open>hook\<close>, \<^verbatim>\<open>offer\<close> and
  \<^verbatim>\<open>cta\<close> are present and not empty.
\<close>

theorem both_tiers_fail:
  assumes "isl (fst (callGeminiDirect e net (userRequest topic businessType) tr))"
    and "isl (fst (callPollinationsText net (userRequest topic businessType)
                (snd (callGeminiDirect e net (userRequest topic businessType) tr))))"
  shows "fst (generateMarketingCopy e net topic businessType tr) = Inr safe_mode
       \<and> safe_mode = VObject
           [(utf16 ''hook'', VString (utf16 ''Redefine Excellence. Aaj hi shuru karein.'')),
            (utf16 ''offer'', VString (utf16 ''Premium Launch Privilege: 20% Advantage'')),
            (utf16 ''cta'', VString (utf16 ''Experience the Future''))]
       \<and> complete_copy [utf16 ''hook'', utf16 ''offer'', utf16 ''cta''] safe_mode"
proof -
  let ?u = "userRequest topic businessType"
  have g: "isl (fst (callGeminiDirect e net ?u []))"
    using assms(1) callGeminiDirect_history [of e net ?u "[]" tr] by simp
  have p: "isl (fst (callPollinationsText net ?u []))"
    using assms(2)
      callPollinationsText_history [of net ?u "[]" "snd (callGeminiDirect e net ?u tr)"]
    by simp
  have "fst (generateMarketingCopy e net topic businessType tr) = Inr safe_mode"
    using g p by (auto simp add: generateMarketingCopy_result isl_def)
  then show ?thesis
    using safe_mode_complete by (simp add: safe_mode_def)
qed

theorem both_tiers_fail_witness:
  "isl (fst (callGeminiDirect env_without_key network_down (userRequest [] []) []))
   \<and> isl (fst (callPollinationsText network_down (userRequest [] [])
             (snd (callGeminiDirect env_without_key network_down (userRequest [] []) []))))
   \<and> fst (generateMarketingCopy env_without_key network_down [] [] []) = Inr safe_mode
   \<and> complete_copy [utf16 ''hook'', utf16 ''offer'', utf16 ''cta''] safe_mode"
proof -
  have h1: "isl (fst (callGeminiDirect env_without_key network_down (userRequest [] []) []))"
    by (simp add: callGeminiDirect_result env_without_key_def)
  have h2: "isl (fst (callPollinationsText network_down (userRequest [] [])
             (snd (callGeminiDirect env_without_key network_down (userRequest [] []) []))))"
    by (simp add: callPollinationsText_result)
  show ?thesis
    using both_tiers_fail [OF h1 h2] h1 h2 by simp
qed

text \<open>
  Claim C7: the tiers are attempted in sequence, the primary first, each at most once and
  with at most one request; the events of the secondary tier follow those of the primary
  one, and the secondary tier is invoked exactly when the call of the primary tier failed.
\<close>

theorem tiers_sequential:
  "\<exists>p s. snd (generateMarketingCopy e net topic businessType tr)
             = tr @ p @ (if isl (fst (callGeminiDirect e net (userRequest topic businessType) tr))
                         then s else [])
      \<and> (p = [Invoked Primary]
           \<or> (\<exists>k. p = [Invoked Primary,
                        Fetched (GeminiPost k (brand_focus (userRequest topic businessType)))]))
      \<and> (s = [Invoked Secondary]
           \<or> s = [Invoked Secondary,
                   Fetched (PollinationsGet (brand_focus (userRequest topic businessType)))])
      \<and> tiers_invoked (snd (generateMarketingCopy e net topic businessType tr))
           = tiers_invoked tr
               @ (if isl (fst (callGeminiDirect e net (userRequest topic businessType) tr))
                  then [Primary, Secondary] else [Primary])"
proof -
  let ?u = "userRequest topic businessType"
  let ?p = "snd (callGeminiDirect e net ?u [])"
  let ?s = "snd (callPollinationsText net ?u [])"
  have f: "fst (callGeminiDirect e net ?u tr) = fst (callGeminiDirect e net ?u [])"
    by (rule callGeminiDirect_history)
  have t: "snd (generateMarketingCopy e net topic businessType tr)
             = tr @ ?p @ (if isl (fst (callGeminiDirect e net ?u tr)) then ?s else [])"
    by (simp add: generateMarketingCopy_trace f)
  have p: "?p = [Invoked Primary] \<or> (\<exists>k. ?p = [Invoked Primary, Fetched (GeminiPost k (brand_focus ?u))])"
    by (simp add: callGeminiDirect_trace split: option.splits)
  have s: "?s = [Invoked Secondary] \<or> ?s = [Invoked Secondary, Fetched (PollinationsGet (brand_focus ?u))]"
    by (simp add: callPollinationsText_trace)
  have i: "tiers_invoked (snd (generateMarketingCopy e net topic businessType tr))
           = tiers_invoked tr @ (if isl (fst (callGeminiDirect e net ?u tr))
                  then [Primary, Secondary] else [Primary])"
    by (simp add: generateMarketingCopy_trace f tiers_invoked_append callGeminiDirect_trace
        callPollinationsText_trace split: option.splits)
  show ?thesis
    using t p s i by blast
qed

text \<open>
  Claim C8: the parser applied to the fenced text of the specification (the two
  \<^verbatim>\<open>\n\<close> of its literal are line feeds) removes the fences, trims the line feeds and
  yields the object with \<^verbatim>\<open>hook\<close> \<^verbatim>\<open>H\<close>, \<^verbatim>\<open>offer\<close> \<^verbatim>\<open>O\<close> and \<^verbatim>\<open>callToAction\<close>
  \<^verbatim>\<open>C\<close>.
\<close>

theorem parseResponse_fenced:
  \<open>cleanText (utf16 ''```json'' @ [0x0A] @ utf16 ''{"hook":"H","offer":"O","callToAction":"C"}'' @ [0x0A] @ utf16 ''```'')
      = utf16 ''{"hook":"H","offer":"O","callToAction":"C"}''
   \<and> parseResponse (VString (utf16 ''```json'' @ [0x0A] @ utf16 ''{"hook":"H","offer":"O","callToAction":"C"}'' @ [0x0A] @ utf16 ''```''))
      = Inr (VObject [(utf16 ''hook'', VString (utf16 ''H'')),
                      (utf16 ''offer'', VString (utf16 ''O'')),
                      (utf16 ''callToAction'', VString (utf16 ''C''))])\<close>
  by code_simp

text \<open>
  Claim C9: on either tier a status that is not a success is thrown as an error, and the
  orchestrator does the same after an abort at the deadline, a connection error and such
  a status: a failed fetch of the primary tier hands over to the secondary tier, a failed
  fetch of both ends in the fixed object. The key is set and the prompt holds no lone
  surrogate, so that both requests are sent.
\<close>

theorem transport_failure_advances:
  assumes "NEXT_PUBLIC_GEMINI_API_KEY e = Some k" and "k \<noteq> []"
    and "well_formed (brand_focus (userRequest topic businessType))"
  shows "fetch_failed (Inl AbortError) \<and> fetch_failed (Inl TypeError)
       \<and> fetch_failed (Inr \<lparr>ok = False, body = b\<rparr>)
       \<and> (fetch_failed (net (GeminiPost k (brand_focus (userRequest topic businessType)))) \<longrightarrow>
            fst (callGeminiDirect e net (userRequest topic businessType) tr)
              = (case net (GeminiPost k (brand_focus (userRequest topic businessType))) of
                   Inl err \<Rightarrow> Inl err
                 | Inr r \<Rightarrow> Inl (Error ''Google Blocked'')))
       \<and> (fetch_failed (net (PollinationsGet (brand_focus (userRequest topic businessType)))) \<longrightarrow>
            fst (callPollinationsText net (userRequest topic businessType) tr)
              = (case net (PollinationsGet (brand_focus (userRequest topic businessType))) of
                   Inl err \<Rightarrow> Inl err
                 | Inr r \<Rightarrow> Inl (Error ''Backup Failed'')))
       \<and> (fetch_failed (net (GeminiPost k (brand_focus (userRequest topic businessType)))) \<longrightarrow>
            generateMarketingCopy e net topic businessType tr
              = (case callPollinationsText net (userRequest topic businessType)
                        (tr @ [Invoked Primary,
                               Fetched (GeminiPost k (brand_focus (userRequest topic businessType)))]) of
                   (Inr t, tr2) \<Rightarrow> (parseResponse (VString t), tr2)
                 | (Inl err2, tr2) \<Rightarrow> (Inr safe_mode, tr2)))
       \<and> (fetch_failed (net (GeminiPost k (brand_focus (userRequest topic businessType))))
            \<and> fetch_failed (net (PollinationsGet (brand_focus (userRequest topic businessType)))) \<longrightarrow>
            generateMarketingCopy e net topic businessType tr
              = (Inr safe_mode,
                 tr @ [Invoked Primary,
                       Fetched (GeminiPost k (brand_focus (userRequest topic businessType))),
                       Invoked Secondary,
                       Fetched (PollinationsGet (brand_focus (userRequest topic businessType)))]))"
proof -
  let ?u = "userRequest topic businessType"
  let ?G = "GeminiPost k (brand_focus ?u)"
  let ?P = "PollinationsGet (brand_focus ?u)"
  have kinds: "fetch_failed (Inl AbortError) \<and> fetch_failed (Inl TypeError)
       \<and> fetch_failed (Inr \<lparr>ok = False, body = b\<rparr>)"
    by (simp add: fetch_failed_def)
  have g: "fst (callGeminiDirect e net ?u tr')
             = (case net ?G of Inl err \<Rightarrow> Inl err | Inr r \<Rightarrow> Inl (Error ''Google Blocked''))"
    if "fetch_failed (net ?G)" for tr'
    using that assms(1,2)
    by (simp add: callGeminiDirect_result fetch_failed_def split: sum.splits)
  have gt: "snd (callGeminiDirect e net ?u tr) = tr @ [Invoked Primary, Fetched ?G]"
    using assms(1,2) by (simp add: callGeminiDirect_trace)
  have p: "fst (callPollinationsText net ?u tr')
             = (case net ?P of Inl err \<Rightarrow> Inl err | Inr r \<Rightarrow> Inl (Error ''Backup Failed''))"
    if "fetch_failed (net ?P)" for tr'
    using that assms(3)
    by (simp add: callPollinationsText_result fetch_failed_def split: sum.splits)
  have pt: "snd (callPollinationsText net ?u tr') = tr' @ [Invoked Secondary, Fetched ?P]" for tr'
    using assms(3) by (simp add: callPollinationsText_trace)
  have adv: "generateMarketingCopy e net topic businessType tr
               = (case callPollinationsText net ?u (tr @ [Invoked Primary, Fetched ?G]) of
                    (Inr t, tr2) \<Rightarrow> (parseResponse (VString t), tr2)
                  | (Inl err2, tr2) \<Rightarrow> (Inr safe_mode, tr2))"
    if f: "fetch_failed (net ?G)"
  proof -
    obtain err where "fst (callGeminiDirect e net ?u tr) = Inl err"
      using g [OF f, of tr] by (cases "net ?G") simp_all
    then have "callGeminiDirect e net ?u tr = (Inl err, tr @ [Invoked Primary, Fetched ?G])"
      using gt by (simp add: prod_eq_iff)
    then show ?thesis
      by (simp add: generateMarketingCopy_cases)
  qed
  have both: "generateMarketingCopy e net topic businessType tr
                = (Inr safe_mode, tr @ [Invoked Primary, Fetched ?G, Invoked Secondary, Fetched ?P])"
    if f: "fetch_failed (net ?G)" and f': "fetch_failed (net ?P)"
  proof -
    obtain err where "fst (callPollinationsText net ?u (tr @ [Invoked Primary, Fetched ?G])) = Inl err"
      using p [OF f', of "tr @ [Invoked Primary, Fetched ?G]"] by (cases "net ?P") simp_all
    then have "callPollinationsText net ?u (tr @ [Invoked Primary, Fetched ?G])
                 = (Inl err, tr @ [Invoked Primary, Fetched ?G, Invoked Secondary, Fetched ?P])"
      using pt [of "tr @ [Invoked Primary, Fetched ?G]"] by (simp add: prod_eq_iff)
    then show ?thesis
      using adv [OF f] by simp
  qed
  show ?thesis
    using kinds g [of tr] p [of tr] adv both by blast
qed

theorem transport_failure_advances_witness:
  "NEXT_PUBLIC_GEMINI_API_KEY env_with_key = Some (utf16 ''key'')
   \<and> utf16 ''key'' \<noteq> []
   \<and> well_formed (brand_focus (userRequest [] []))
   \<and> fetch_failed (network_refusing (GeminiPost (utf16 ''key'') (brand_focus (userRequest [] []))))
   \<and> fetch_failed (network_refusing (PollinationsGet (brand_focus (userRequest [] []))))
   \<and> fst (callGeminiDirect env_with_key network_refusing (userRequest [] []) [])
        = Inl (Error ''Google Blocked'')
   \<and> fst (callPollinationsText network_refusing (userRequest [] []) [])
        = Inl (Error ''Backup Failed'')
   \<and> generateMarketingCopy env_with_key network_refusing [] [] []
        = (Inr safe_mode,
           [Invoked Primary,
            Fetched (GeminiPost (utf16 ''key'') (brand_focus (userRequest [] []))),
            Invoked Secondary,
            Fetched (PollinationsGet (brand_focus (userRequest [] [])))])"
proof -
  let ?u = "userRequest [] []"
  let ?G = "GeminiPost (utf16 ''key'') (brand_focus ?u)"
  let ?P = "PollinationsGet (brand_focus ?u)"
  have h1: "NEXT_PUBLIC_GEMINI_API_KEY env_with_key = Some (utf16 ''key'')"
    by (simp add: env_with_key_def)
  have h3: "well_formed (brand_focus ?u)"
    by (rule brand_focus_well_formed) simp_all
  have f1: "fetch_failed (network_refusing ?G)" and f2: "fetch_failed (network_refusing ?P)"
    by (simp_all add: fetch_failed_def)
  note t = transport_failure_advances [OF h1 key_present h3, of "Inr []" network_refusing "[]"]
  from t f1 have "fst (callGeminiDirect env_with_key network_refusing ?u [])
      = (case network_refusing ?G of Inl err \<Rightarrow> Inl err | Inr r \<Rightarrow> Inl (Error ''Google Blocked''))"
    by blast
  then have c1: "fst (callGeminiDirect env_with_key network_refusing ?u [])
      = Inl (Error ''Google Blocked'')"
    by simp
  from t f2 have "fst (callPollinationsText network_refusing ?u [])
      = (case network_refusing ?P of Inl err \<Rightarrow> Inl err | Inr r \<Rightarrow> Inl (Error ''Backup Failed''))"
    by blast
  then have c2: "fst (callPollinationsText network_refusing ?u []) = Inl (Error ''Backup Failed'')"
    by simp
  from t f1 f2 have "generateMarketingCopy env_with_key network_refusing [] [] []
      = (Inr safe_mode, [] @ [Invoked Primary, Fetched ?G, Invoked Secondary, Fetched ?P])"
    by blast
  then have c3: "generateMarketingCopy env_with_key network_refusing [] [] []
      = (Inr safe_mode, [Invoked Primary, Fetched ?G, Invoked Secondary, Fetched ?P])"
    by simp
  show ?thesis
    using h1 key_present h3 f1 f2 c1 c2 c3 by blast
qed

text \<open>
  Claim C10: the orchestrator is stateless across requests. With the environment and the
  network fixed, the value returned does not depend on the trace of earlier requests, the
  events of one invocation are appended to that trace and do not depend on it either, and
  a second invocation returns what the first returned.
\<close>

theorem generateMarketingCopy_stateless:
  "fst (generateMarketingCopy e net topic businessType tr)
     = fst (generateMarketingCopy e net topic businessType tr')
   \<and> snd (generateMarketingCopy e net topic businessType tr)
     = tr @ snd (generateMarketingCopy e net topic businessType [])
   \<and> fst (generateMarketingCopy e net topic businessType
            (snd (generateMarketingCopy e net topic businessType tr)))
     = fst (generateMarketingCopy e net topic businessType tr)"
  by (simp add: generateMarketingCopy_result generateMarketingCopy_trace)

end
